theory Spec2Isabelle
  imports Main
begin

section \<open>JavaScript strings\<close>

text \<open>
  A JavaScript string is modelled as a \<^typ>\<open>string\<close>: the list of its code units, each
  below 256 (ASCII and the Latin-1 supplement). The methods used by the client are
  written out as list functions.
\<close>

text \<open>\<^verbatim>\<open>s.startsWith(p)\<close>\<close>

definition startsWith :: "string \<Rightarrow> string \<Rightarrow> bool" where
  "startsWith s p = (take (length p) s = p)"

text \<open>\<^verbatim>\<open>s.includes(p)\<close>: \<open>p\<close> occurs at some position of \<open>s\<close>.\<close>

fun str_includes :: "string \<Rightarrow> string \<Rightarrow> bool" where
  "str_includes [] p = (p = [])"
| "str_includes (c # cs) p = (startsWith (c # cs) p \<or> str_includes cs p)"

text \<open>\<^verbatim>\<open>s.split(sep)[0]\<close> for a non-empty separator: the text before the first
  occurrence of \<open>sep\<close>, the whole string when there is none.\<close>

fun split_first :: "string \<Rightarrow> string \<Rightarrow> string" where
  "split_first [] sep = []"
| "split_first (c # cs) sep =
     (if startsWith (c # cs) sep then [] else c # split_first cs sep)"

section \<open>Protocol detector\<close>

datatype protocol = Ftp | Ftps | Sftp | Http | Https

text \<open>A thrown \<^verbatim>\<open>Error\<close>, by its message.\<close>

datatype error = Error string

text \<open>The membership test \<^verbatim>\<open>['ftp', 'ftps', 'sftp', 'http', 'https'].includes(protocol)\<close>.\<close>

definition known_schemes :: "string list" where
  "known_schemes = [''ftp'', ''ftps'', ''sftp'', ''http'', ''https'']"

text \<open>
  \<^verbatim>\<open>ProtocolDetector.detect(host, transferMode?)\<close>. The optional hint is \<open>None\<close> when
  the argument is left out; an empty hint is falsy and skipped like a missing one.
\<close>

definition detect :: "string \<Rightarrow> string option \<Rightarrow> error + protocol" where
  "detect hostname transferMode =
    (let hint = (case transferMode of None \<Rightarrow> [] | Some m \<Rightarrow> m) in
     if hint \<noteq> [] \<and> startsWith hint ''sftp'' then Inr Sftp
     else if hint \<noteq> [] \<and> startsWith hint ''ftps'' then Inr Ftps
     else if hint \<noteq> [] \<and> startsWith hint ''ftp'' then Inr Ftp
     else if hint \<noteq> [] \<and> startsWith hint ''https'' then Inr Https
     else if hint \<noteq> [] \<and> startsWith hint ''http'' then Inr Http
     else if startsWith hostname ''sftp://'' \<or> startsWith hostname ''sftp:'' then Inr Sftp
     else if startsWith hostname ''ftps://'' \<or> startsWith hostname ''ftps:'' then Inr Ftps
     else if startsWith hostname ''ftp://'' \<or> startsWith hostname ''ftp:'' then Inr Ftp
     else if startsWith hostname ''https://'' then Inr Https
     else if startsWith hostname ''http://'' then Inr Http
     else if str_includes hostname ''://''
             \<and> split_first hostname ''://'' \<notin> set known_schemes
       then Inl (Error (''Unsupported protocol: '' @ split_first hostname ''://''))
     else if str_includes hostname ''sftp'' then Inr Sftp
     else if str_includes hostname ''https'' then Inr Https
     else if str_includes hostname ''http'' then Inr Http
     else Inr Ftp)"

text \<open>
  \<^verbatim>\<open>s.replace(/^(a|b|...)/, '')\<close> for literal alternatives: the first alternative,
  in the order written, that the string starts with is removed; the string is
  returned as it is when none matches.
\<close>

fun replace_prefix :: "string list \<Rightarrow> string \<Rightarrow> string" where
  "replace_prefix [] s = s"
| "replace_prefix (p # ps) s =
     (if startsWith s p then drop (length p) s else replace_prefix ps s)"

definition scheme_alternatives :: "string list" where
  "scheme_alternatives = [''sftp'', ''ftps'', ''ftp'', ''https'', ''http'']"

text \<open>\<^verbatim>\<open>ProtocolDetector.normalizeHost\<close>: two chained replacements.\<close>

definition normalizeHost :: "string \<Rightarrow> string" where
  "normalizeHost hostname =
     replace_prefix (map (\<lambda>t. t @ '':'') scheme_alternatives)
       (replace_prefix (map (\<lambda>t. t @ ''://'') scheme_alternatives) hostname)"

section \<open>JavaScript numbers\<close>

text \<open>
  A number is \<open>NaN\<close> or a finite value; a finite value is taken as an integer, the unit
  of every number below being the millisecond. A \<^verbatim>\<open>Date\<close> is modelled by its time value
  \<^verbatim>\<open>getTime()\<close>, which is \<open>NaN\<close> for an Invalid Date.
\<close>

datatype js_number = NaN | Num int

text \<open>\<^verbatim>\<open>a - b\<close> and \<^verbatim>\<open>a > b\<close>: a difference with \<open>NaN\<close> is \<open>NaN\<close>, a comparison with \<open>NaN\<close> is
  false.\<close>

fun js_minus :: "js_number \<Rightarrow> js_number \<Rightarrow> js_number" where
  "js_minus (Num a) (Num b) = Num (a - b)"
| "js_minus NaN b = NaN"
| "js_minus a NaN = NaN"

fun js_gt :: "js_number \<Rightarrow> js_number \<Rightarrow> bool" where
  "js_gt (Num a) (Num b) = (b < a)"
| "js_gt NaN b = False"
| "js_gt a NaN = False"

text \<open>\<^verbatim>\<open>x || d\<close> for an optional number \<open>x\<close>: a missing \<open>x\<close>, 0 and \<open>NaN\<close> are falsy.\<close>

fun js_or :: "js_number option \<Rightarrow> js_number \<Rightarrow> js_number" where
  "js_or None d = d"
| "js_or (Some NaN) d = d"
| "js_or (Some (Num t)) d = (if t = 0 then d else Num t)"

section \<open>File matcher\<close>

subsection \<open>Data\<close>

text \<open>\<^verbatim>\<open>FileInfo\<close>: \<open>date\<close> is the time value of the \<^verbatim>\<open>Date\<close>, \<open>modifyTime\<close> the optional
  number.\<close>

datatype file_type = File | Directory

record file_info =
  name :: string
  fsize :: int
  date :: js_number
  ftype :: file_type
  isDirectory :: bool
  modifyTime :: "js_number option"

record file_name_match_options =
  basename :: string
  filepath :: string
  extname :: string

datatype file_name_type = Exact | Prefix | Regex | Smart

text \<open>
  The functions of the Node.js runtime that the matcher and the client call: the
  \<^verbatim>\<open>path\<close> module and the regular-expression engine. They are not part of the
  repository, so every operation takes them as a parameter. \<open>regexp_test lib p s\<close> is
  \<^verbatim>\<open>new RegExp(p).test(s)\<close>, and \<open>None\<close> when the constructor throws.
\<close>

record node_lib =
  path_basename :: "string \<Rightarrow> string"
  path_dirname :: "string \<Rightarrow> string"
  path_parse_name :: "string \<Rightarrow> string"
  path_parse_ext :: "string \<Rightarrow> string"
  path_join :: "string \<Rightarrow> string \<Rightarrow> string"
  regexp_test :: "string \<Rightarrow> string \<Rightarrow> bool option"

subsection \<open>The fixed regular expressions\<close>

text \<open>
  The eight literals of \<^verbatim>\<open>isDateTimeSuffix\<close> use character classes, sequence, \<^verbatim>\<open>?\<close>,
  \<^verbatim>\<open>+\<close>, \<^verbatim>\<open>*\<close> and bounded repetition only. A literal is translated to a regular
  expression and tested by derivatives: \<^verbatim>\<open>/^r/.test(s)\<close> holds iff some prefix of \<open>s\<close>
  is in the language of \<open>r\<close>, \<^verbatim>\<open>/^r$/.test(s)\<close> iff \<open>s\<close> itself is.
\<close>

datatype rx = Zero | Eps | Cls "char list" | Seq rx rx | Alt rx rx | Star rx

fun nullable :: "rx \<Rightarrow> bool" where
  "nullable Zero = False"
| "nullable Eps = True"
| "nullable (Cls cs) = False"
| "nullable (Seq r s) = (nullable r \<and> nullable s)"
| "nullable (Alt r s) = (nullable r \<or> nullable s)"
| "nullable (Star r) = True"

fun deriv :: "char \<Rightarrow> rx \<Rightarrow> rx" where
  "deriv c Zero = Zero"
| "deriv c Eps = Zero"
| "deriv c (Cls cs) = (if c \<in> set cs then Eps else Zero)"
| "deriv c (Seq r s) =
     (if nullable r then Alt (Seq (deriv c r) s) (deriv c s) else Seq (deriv c r) s)"
| "deriv c (Alt r s) = Alt (deriv c r) (deriv c s)"
| "deriv c (Star r) = Seq (deriv c r) (Star r)"

fun match_whole :: "rx \<Rightarrow> string \<Rightarrow> bool" where
  "match_whole r [] = nullable r"
| "match_whole r (c # cs) = match_whole (deriv c r) cs"

fun match_prefix :: "rx \<Rightarrow> string \<Rightarrow> bool" where
  "match_prefix r [] = nullable r"
| "match_prefix r (c # cs) = (nullable r \<or> match_prefix (deriv c r) cs)"

definition rx_opt :: "rx \<Rightarrow> rx" where
  "rx_opt r = Alt r Eps"

definition rx_plus :: "rx \<Rightarrow> rx" where
  "rx_plus r = Seq r (Star r)"

fun rx_rep :: "nat \<Rightarrow> rx \<Rightarrow> rx" where
  "rx_rep 0 r = Eps"
| "rx_rep (Suc n) r = Seq r (rx_rep n r)"

definition digit :: rx where
  "digit = Cls ''0123456789''"

definition lit :: "char \<Rightarrow> rx" where
  "lit c = Cls [c]"

text \<open>A literal with its anchoring: \<open>Starts r\<close> is \<^verbatim>\<open>/^r/\<close>, \<open>Whole r\<close> is \<^verbatim>\<open>/^r$/\<close>.\<close>

datatype pattern = Starts rx | Whole rx

fun pattern_test :: "pattern \<Rightarrow> string \<Rightarrow> bool" where
  "pattern_test (Starts r) s = match_prefix r s"
| "pattern_test (Whole r) s = match_whole r s"

definition patterns :: "pattern list" where
  "patterns =
    [Starts (Seq (rx_opt (lit CHR ''_'')) (Seq (rx_rep 4 digit) (Seq (rx_opt (lit CHR ''-''))
       (Seq (rx_rep 2 digit) (Seq (rx_opt (lit CHR ''-'')) (rx_rep 2 digit)))))),
     Starts (Seq (rx_opt (lit CHR ''_'')) (Seq (rx_rep 2 digit) (Seq (rx_opt (lit CHR ''-''))
       (Seq (rx_rep 2 digit) (Seq (rx_opt (lit CHR ''-'')) (rx_rep 4 digit)))))),
     Starts (Seq (rx_opt (lit CHR ''_'')) (rx_rep 8 digit)),
     Starts (Seq (rx_opt (lit CHR ''_'')) (rx_rep 6 digit)),
     Starts (Seq (rx_opt (lit CHR ''_'')) (rx_rep 4 digit)),
     Whole (Seq (rx_opt (lit CHR ''_'')) (Seq digit (rx_opt digit))),
     Starts (Seq (rx_opt (lit CHR ''_'')) (Seq (rx_opt (lit CHR ''v''))
       (Seq (rx_plus digit) (Star (Seq (lit CHR ''.'') (rx_plus digit)))))),
     Starts (Seq (rx_opt (lit CHR ''_'')) (Seq (rx_rep 2 digit) (Seq (lit CHR '':'') (rx_rep 2 digit))))]"

text \<open>\<^verbatim>\<open>patterns.some(pattern => pattern.test(suffix))\<close>\<close>

definition isDateTimeSuffix :: "string \<Rightarrow> bool" where
  "isDateTimeSuffix suffix = list_ex (\<lambda>p. pattern_test p suffix) patterns"

subsection \<open>Normalisation\<close>

text \<open>
  \<^verbatim>\<open>toLowerCase\<close> on code units below 256: the letters \<open>A\<close> to \<open>Z\<close> and the Latin-1 capitals
  (192 to 222 but the multiplication sign 215) move up by 32.
\<close>

definition toLowerChar :: "char \<Rightarrow> char" where
  "toLowerChar c =
     (let n = (of_char c :: nat) in
      if (65 \<le> n \<and> n \<le> 90) \<or> (192 \<le> n \<and> n \<le> 222 \<and> n \<noteq> 215)
      then char_of (n + 32) else c)"

definition toLowerCase :: "string \<Rightarrow> string" where
  "toLowerCase s = map toLowerChar s"

text \<open>The class \<^verbatim>\<open>\s\<close> below 256: tab, line feed, vertical tab, form feed, carriage
  return, space and the no-break space. \<^verbatim>\<open>trim\<close> removes the same characters.\<close>

definition is_space :: "char \<Rightarrow> bool" where
  "is_space c = ((of_char c :: nat) \<in> {9, 10, 11, 12, 13, 32, 160})"

definition trim :: "string \<Rightarrow> string" where
  "trim s = rev (dropWhile is_space (rev (dropWhile is_space s)))"

text \<open>\<^verbatim>\<open>str.toLowerCase().replace(/[_\s-]+/g, '').trim()\<close>: every maximal run of
  the class is replaced by the empty string, which removes each character of the class.\<close>

definition normalizeString :: "string \<Rightarrow> string" where
  "normalizeString str =
     trim (filter (\<lambda>c. \<not> (c = CHR ''_'' \<or> is_space c \<or> c = CHR ''-'')) (toLowerCase str))"

subsection \<open>Matching\<close>

definition smartMatch :: "node_lib \<Rightarrow> string \<Rightarrow> string \<Rightarrow> string \<Rightarrow> bool" where
  "smartMatch lib fileName basename' extname' =
    (let fileBasename = path_parse_name lib fileName;
         fileExt = path_parse_ext lib fileName in
     if fileName = basename' @ extname' then True
     else if extname' \<noteq> [] \<and> toLowerCase fileExt \<noteq> toLowerCase extname' then False
     else
       (let normalizedFile = normalizeString fileBasename;
            normalizedTarget = normalizeString basename' in
        if normalizedFile = normalizedTarget then True
        else if startsWith normalizedFile normalizedTarget
          then isDateTimeSuffix (drop (length normalizedTarget) normalizedFile)
        else False))"

definition doesFileNameMatch ::
  "node_lib \<Rightarrow> file_info \<Rightarrow> file_name_match_options \<Rightarrow> file_name_type \<Rightarrow> bool" where
  "doesFileNameMatch lib fileInfo options fileNameType =
    (let fileName = name fileInfo in
     case fileNameType of
       Exact \<Rightarrow> fileName = path_basename lib (filepath options)
     | Prefix \<Rightarrow> startsWith fileName (basename options)
     | Regex \<Rightarrow>
         (case regexp_test lib (basename options) fileName of
            None \<Rightarrow> False
          | Some b \<Rightarrow> b)
     | Smart \<Rightarrow> smartMatch lib fileName (basename options) (extname options))"

text \<open>\<^verbatim>\<open>a.modifyTime || a.date.getTime()\<close>: the date stands in for a \<^verbatim>\<open>modifyTime\<close> that
  is missing, 0 or \<open>NaN\<close>, and may be \<open>NaN\<close> itself.\<close>

definition sortTime :: "file_info \<Rightarrow> js_number" where
  "sortTime a = js_or (modifyTime a) (date a)"

text \<open>The comparator \<^verbatim>\<open>(a, b) => bTime - aTime\<close>; it returns \<open>NaN\<close> when one of the two
  times is \<open>NaN\<close>.\<close>

definition newestFirst :: "file_info \<Rightarrow> file_info \<Rightarrow> js_number" where
  "newestFirst a b = js_minus (sortTime b) (sortTime a)"

text \<open>
  \<^verbatim>\<open>Array.prototype.sort(cmp)\<close> reads a comparator result \<open>NaN\<close> as 0, and keeps \<open>x\<close> in
  front of \<open>y\<close> when the result for \<open>(x, y)\<close> is not positive.
\<close>

fun not_positive :: "js_number \<Rightarrow> bool" where
  "not_positive NaN = True"
| "not_positive (Num v) = (v \<le> 0)"

text \<open>
  The sort is stable: with a consistent comparator the result is the one of a stable
  insertion sort, where an element goes in front of the first later element that it
  does not have to follow. With a comparator that is not consistent, as \<open>newestFirst\<close> is
  on a time \<open>NaN\<close>, the language leaves the order to the implementation, and the
  insertion sort gives one of the possible orders.
\<close>

fun insert_sorted :: "('a \<Rightarrow> 'a \<Rightarrow> js_number) \<Rightarrow> 'a \<Rightarrow> 'a list \<Rightarrow> 'a list" where
  "insert_sorted cmp x [] = [x]"
| "insert_sorted cmp x (y # ys) =
     (if not_positive (cmp x y) then x # y # ys else y # insert_sorted cmp x ys)"

definition array_sort :: "('a \<Rightarrow> 'a \<Rightarrow> js_number) \<Rightarrow> 'a list \<Rightarrow> 'a list" where
  "array_sort cmp xs = foldr (insert_sorted cmp) xs []"

definition findBestMatch ::
  "node_lib \<Rightarrow> file_info list \<Rightarrow> file_name_match_options \<Rightarrow> file_name_type
     \<Rightarrow> file_info option" where
  "findBestMatch lib files options fileNameType =
    (let matches = filter (\<lambda>f. doesFileNameMatch lib f options fileNameType) files in
     if length matches = 0 then None
     else if length matches = 1 then Some (matches ! 0)
     else Some (array_sort newestFirst matches ! 0))"

section \<open>Client\<close>

subsection \<open>Data\<close>

record connection_config =
  host :: string
  username :: "string option"
  password :: "string option"
  port :: "int option"
  secure :: "bool option"
  directoryPath :: "string option"
  timeout :: "int option"

record list_options =
  pattern :: "string option"
  fileNameType :: "file_name_type option"
  includeDirectories :: "bool option"

record download_options =
  download_timeout :: "int option"
  retries :: "int option"
  retryDelay :: "int option"

type_synonym buffer = string

text \<open>The result of \<^verbatim>\<open>HttpAdapter.getFileInfo\<close>.\<close>

record file_probe =
  isJson :: bool
  lastModified :: "js_number option"

text \<open>
  A protocol handler (\<^verbatim>\<open>ProtocolAdapter\<close>) talks to a server through an external
  library. It is modelled by what each of its methods answers: a value, or the error it
  throws. \<open>h_download a k p\<close> is the outcome of the call of \<^verbatim>\<open>download(p)\<close> that is made
  as attempt \<open>k\<close> of one client download, so that a handler may fail first and succeed
  later. \<open>h_getFileInfo\<close> is the additional method of the HTTP handler.
\<close>

record handler =
  h_connect :: "connection_config \<Rightarrow> error + unit"
  h_disconnect :: "error + unit"
  h_list :: "string \<Rightarrow> error + file_info list"
  h_download :: "nat \<Rightarrow> string \<Rightarrow> error + buffer"
  h_upload :: "string \<Rightarrow> string \<Rightarrow> error + unit"
  h_stat :: "string \<Rightarrow> error + file_info option"
  h_exists :: "string \<Rightarrow> error + bool"
  h_lastModified :: "string \<Rightarrow> error + js_number option"
  h_getFileInfo :: "string \<Rightarrow> error + file_probe"

text \<open>The three handler classes a client instantiates.\<close>

record adapter_classes =
  newFtpAdapter :: handler
  newSftpAdapter :: handler
  newHttpAdapter :: handler

text \<open>The three private fields of \<^verbatim>\<open>UniversalFileClient\<close>.\<close>

record client =
  adapter :: "handler option"
  protocol :: "protocol option"
  connectionConfig :: "connection_config option"

definition new_client :: client where
  "new_client = \<lparr>adapter = None, protocol = None, connectionConfig = None\<rparr>"

definition getProtocol :: "client \<Rightarrow> protocol option" where
  "getProtocol c = protocol c"

definition getConnectionConfig :: "client \<Rightarrow> connection_config option" where
  "getConnectionConfig c = connectionConfig c"

definition isConnected :: "client \<Rightarrow> bool" where
  "isConnected c = (adapter c \<noteq> None)"

definition notConnected :: error where
  "notConnected = Error ''Not connected to any server''"

text \<open>\<^verbatim>\<open>new Error(prefix + error.message)\<close>\<close>

fun wrap :: "string \<Rightarrow> error \<Rightarrow> error" where
  "wrap prefix (Error m) = Error (prefix @ m)"

subsection \<open>Connection management\<close>

text \<open>
  Every method takes the client and returns its outcome with the client after the call.
  In \<^verbatim>\<open>connect\<close> the \<^verbatim>\<open>default\<close> branch of the switch has no counterpart: \<open>detect\<close>
  returns one of the five tags.
\<close>

definition connect ::
  "adapter_classes \<Rightarrow> connection_config \<Rightarrow> client \<Rightarrow> (error + unit) \<times> client" where
  "connect classes config c =
    (if host config = [] then (Inl (Error ''Host is required for connection''), c)
     else
       (case detect (host config) None of
          Inl e \<Rightarrow> (Inl e, c)
        | Inr p \<Rightarrow>
            (let c1 = c\<lparr>protocol := Some p\<rparr>;
                 c2 = c1\<lparr>connectionConfig := Some config\<rparr>;
                 a = (case p of
                        Ftp \<Rightarrow> newFtpAdapter classes
                      | Ftps \<Rightarrow> newFtpAdapter classes
                      | Sftp \<Rightarrow> newSftpAdapter classes
                      | Http \<Rightarrow> newHttpAdapter classes
                      | Https \<Rightarrow> newHttpAdapter classes);
                 c3 = c2\<lparr>adapter := Some a\<rparr>
             in (h_connect a config, c3))))"

definition disconnect :: "client \<Rightarrow> (error + unit) \<times> client" where
  "disconnect c =
    (case adapter c of
       None \<Rightarrow> (Inr (), c)
     | Some a \<Rightarrow>
         (case h_disconnect a of
            Inl e \<Rightarrow> (Inl e, c)
          | Inr u \<Rightarrow>
              (Inr (), c\<lparr>adapter := None, protocol := None, connectionConfig := None\<rparr>)))"

subsection \<open>Data operations\<close>

text \<open>\<^verbatim>\<open>list(pathArg, options)\<close>; a missing \<^verbatim>\<open>includeDirectories\<close> is falsy.\<close>

definition no_list_options :: list_options where
  "no_list_options = \<lparr>pattern = None, fileNameType = None, includeDirectories = None\<rparr>"

definition list_op ::
  "client \<Rightarrow> string \<Rightarrow> list_options \<Rightarrow> (error + file_info list) \<times> client" where
  "list_op c pathArg options =
    (case adapter c of
       None \<Rightarrow> (Inl notConnected, c)
     | Some a \<Rightarrow>
         (case h_list a pathArg of
            Inl e \<Rightarrow> (Inl (wrap ''Failed to list directory: '' e), c)
          | Inr files \<Rightarrow>
              (if includeDirectories options \<noteq> Some True
               then (Inr (filter (\<lambda>f. \<not> isDirectory f) files), c)
               else (Inr files, c))))"

text \<open>
  What a download does besides returning: the calls of the handler's download and the
  waits between them, in order.
\<close>

datatype event = Attempt nat | Sleep int

text \<open>\<^verbatim>\<open>x || d\<close> for an optional number: \<open>d\<close> when \<open>x\<close> is missing or 0.\<close>

definition or_default :: "int option \<Rightarrow> int \<Rightarrow> int" where
  "or_default x d = (case x of None \<Rightarrow> d | Some v \<Rightarrow> if v = 0 then d else v)"

text \<open>The loop \<^verbatim>\<open>for (let attempt = 0; attempt <= retries; attempt++)\<close>, from
  \<open>attempt\<close> on.\<close>

function download_loop ::
  "handler \<Rightarrow> string \<Rightarrow> int \<Rightarrow> int \<Rightarrow> nat \<Rightarrow> (error + buffer) \<times> event list" where
  "download_loop a remotePath retries' retryDelay' attempt =
    (if int attempt \<le> retries' then
       (case h_download a attempt remotePath of
          Inr data \<Rightarrow> (Inr data, [Attempt attempt])
        | Inl e \<Rightarrow>
            if int attempt = retries' then (Inl e, [Attempt attempt])
            else
              (let rest = download_loop a remotePath retries' retryDelay' (Suc attempt)
               in (fst rest,
                   Attempt attempt # Sleep (retryDelay' * 2 ^ attempt) # snd rest)))
     else (Inl (Error ''Download failed after all retries''), []))"
  by pat_completeness auto
termination
  by (relation "measure (\<lambda>(a, p, r, d, k). nat (r + 1 - int k))") auto

declare download_loop.simps [simp del]

definition no_download_options :: download_options where
  "no_download_options = \<lparr>download_timeout = None, retries = None, retryDelay = None\<rparr>"

definition download ::
  "client \<Rightarrow> string \<Rightarrow> download_options \<Rightarrow> ((error + buffer) \<times> event list) \<times> client" where
  "download c remotePath options =
    (case adapter c of
       None \<Rightarrow> ((Inl notConnected, []), c)
     | Some a \<Rightarrow>
         (download_loop a remotePath (or_default (retries options) 3)
            (or_default (retryDelay options) 1000) 0, c))"

definition upload :: "client \<Rightarrow> string \<Rightarrow> string \<Rightarrow> (error + unit) \<times> client" where
  "upload c localPath remotePath =
    (case adapter c of
       None \<Rightarrow> (Inl notConnected, c)
     | Some a \<Rightarrow>
         if localPath = [] \<or> remotePath = []
         then (Inl (Error ''Both local and remote paths are required for upload''), c)
         else
           (case h_upload a localPath remotePath of
              Inl e \<Rightarrow> (Inl (wrap ''Failed to upload file: '' e), c)
            | Inr u \<Rightarrow> (Inr u, c)))"

definition stat :: "client \<Rightarrow> string \<Rightarrow> (error + file_info option) \<times> client" where
  "stat c filePath =
    (case adapter c of
       None \<Rightarrow> (Inl notConnected, c)
     | Some a \<Rightarrow>
         if filePath = []
         then (Inl (Error ''File path is required for stat operation''), c)
         else
           (case h_stat a filePath of
              Inl e \<Rightarrow> (Inl (wrap ''Failed to get file stats: '' e), c)
            | Inr r \<Rightarrow> (Inr r, c)))"

definition exists_op :: "client \<Rightarrow> string \<Rightarrow> (error + bool) \<times> client" where
  "exists_op c filePath =
    (case adapter c of
       None \<Rightarrow> (Inl notConnected, c)
     | Some a \<Rightarrow>
         if filePath = []
         then (Inl (Error ''File path is required for exists check''), c)
         else
           (case h_exists a filePath of
              Inl e \<Rightarrow> (Inr False, c)
            | Inr b \<Rightarrow> (Inr b, c)))"

definition lastModified_op ::
  "client \<Rightarrow> string \<Rightarrow> (error + js_number option) \<times> client" where
  "lastModified_op c filePath =
    (case adapter c of
       None \<Rightarrow> (Inl notConnected, c)
     | Some a \<Rightarrow> (h_lastModified a filePath, c))"

subsection \<open>Composite operations\<close>

text \<open>\<^verbatim>\<open>findFile\<close> returns the file with its actual path, or \<^verbatim>\<open>null\<close>.\<close>

definition findFile ::
  "node_lib \<Rightarrow> client \<Rightarrow> string \<Rightarrow> file_name_type
     \<Rightarrow> (error + (file_info \<times> string) option) \<times> client" where
  "findFile lib c targetPath fileNameType' =
    (case adapter c of
       None \<Rightarrow> (Inl notConnected, c)
     | Some a \<Rightarrow>
         (let dirPath = path_dirname lib targetPath;
              basename' = path_parse_name lib targetPath;
              extname' = path_parse_ext lib targetPath;
              (exact, c1) = stat c targetPath in
          case exact of
            Inl e \<Rightarrow> (Inl (wrap ''Failed to find file: '' e), c1)
          | Inr (Some exactFile) \<Rightarrow> (Inr (Some (exactFile, targetPath)), c1)
          | Inr None \<Rightarrow>
              (let (listed, c2) = list_op c1 dirPath no_list_options in
               case listed of
                 Inl e \<Rightarrow> (Inl (wrap ''Failed to find file: '' e), c2)
               | Inr files \<Rightarrow>
                   (let matchOptions =
                          \<lparr>basename = basename', filepath = targetPath, extname = extname'\<rparr> in
                    case findBestMatch lib files matchOptions fileNameType' of
                      Some matchedFile \<Rightarrow>
                        (Inr (Some (matchedFile, path_join lib dirPath (name matchedFile))), c2)
                    | None \<Rightarrow> (Inr None, c2)))))"

record update_result =
  hasUpdate :: bool
  file_found :: "file_info option"
  actualPath :: "string option"

text \<open>
  \<^verbatim>\<open>checkForUpdates\<close>. After a successful \<^verbatim>\<open>findFile\<close> the handler is present; calling
  \<^verbatim>\<open>getFileInfo\<close> on \<^verbatim>\<open>null\<close> would be a \<^verbatim>\<open>TypeError\<close>.
\<close>

definition checkForUpdates ::
  "node_lib \<Rightarrow> client \<Rightarrow> string \<Rightarrow> js_number \<Rightarrow> file_name_type
     \<Rightarrow> (error + update_result) \<times> client" where
  "checkForUpdates lib c filePath lastKnownDate fileNameType' =
    (let (result, c1) = findFile lib c filePath fileNameType' in
     case result of
       Inl e \<Rightarrow> (Inl e, c1)
     | Inr None \<Rightarrow> (Inr \<lparr>hasUpdate = False, file_found = None, actualPath = None\<rparr>, c1)
     | Inr (Some (f, p)) \<Rightarrow>
         if protocol c1 = Some Http \<or> protocol c1 = Some Https then
           (case adapter c1 of
              None \<Rightarrow> (Inl (Error ''TypeError''), c1)
            | Some httpAdapter \<Rightarrow>
                (case h_getFileInfo httpAdapter p of
                   Inl e \<Rightarrow> (Inl e, c1)
                 | Inr fileInfo \<Rightarrow>
                     if isJson fileInfo
                     then (Inr \<lparr>hasUpdate = True, file_found = Some f, actualPath = Some p\<rparr>, c1)
                     else
                       (case lastModified fileInfo of
                          None \<Rightarrow>
                            (Inr \<lparr>hasUpdate = False, file_found = Some f, actualPath = Some p\<rparr>, c1)
                        | Some t \<Rightarrow>
                            (Inr \<lparr>hasUpdate = js_gt t lastKnownDate, file_found = Some f,
                                  actualPath = Some p\<rparr>, c1))))
         else
           (Inr \<lparr>hasUpdate = js_gt (date f) lastKnownDate, file_found = Some f,
                 actualPath = Some p\<rparr>,
            c1))"

section \<open>Handlers\<close>

text \<open>
  \<^verbatim>\<open>HttpAdapter.getFileInfo\<close>. The adapter holds its configuration and a flag. The
  \<^verbatim>\<open>HEAD\<close> request is made by an external library: \<open>axios_head config url\<close> is the
  response it returns with the two headers that are read (a header is \<open>None\<close> when it is
  missing), and \<open>None\<close> when the request throws. \<open>parse_date\<close> is the time value of
  \<^verbatim>\<open>new Date(header)\<close>, \<open>NaN\<close> for a text that is no date.
\<close>

record head_response =
  content_type :: "string option"
  last_modified :: "string option"

record http_adapter =
  http_config :: "connection_config option"
  http_isConnected :: bool

definition getFileInfo ::
  "(connection_config \<Rightarrow> string \<Rightarrow> head_response option) \<Rightarrow> (string \<Rightarrow> js_number)
     \<Rightarrow> http_adapter
     \<Rightarrow> string \<Rightarrow> error + file_probe" where
  "getFileInfo axios_head parse_date this filePath =
    (case http_config this of
       None \<Rightarrow> Inl (Error ''Not connected to HTTP server'')
     | Some config \<Rightarrow>
         if \<not> http_isConnected this then Inl (Error ''Not connected to HTTP server'')
         else
           (let fileUrl = (if startsWith filePath ''http'' then filePath
                           else host config @ filePath) in
            case axios_head config fileUrl of
              None \<Rightarrow> Inr \<lparr>isJson = False, lastModified = None\<rparr>
            | Some response \<Rightarrow>
                (let contentType = (case content_type response of None \<Rightarrow> [] | Some s \<Rightarrow> s);
                     isJson' = (str_includes contentType ''application/json''
                                \<or> str_includes contentType ''text/json'');
                     lastModified' =
                       (case last_modified response of
                          None \<Rightarrow> None
                        | Some s \<Rightarrow> if s = [] then None else Some (parse_date s))
                 in Inr \<lparr>isJson = isJson', lastModified = lastModified'\<rparr>)))"

text \<open>
  \<^verbatim>\<open>FtpAdapter.list\<close> and \<^verbatim>\<open>SftpAdapter.list\<close>, over what the listing of the external
  library returns (\<open>client_list\<close>): both keep the plain files only and convert them.
\<close>

record ftp_entry =
  ftp_name :: string
  ftp_size :: int
  ftp_date :: string
  ftp_isDirectory :: bool

definition ftp_list ::
  "(string \<Rightarrow> js_number) \<Rightarrow> bool \<Rightarrow> (string \<Rightarrow> error + ftp_entry list) \<Rightarrow> string
     \<Rightarrow> error + file_info list" where
  "ftp_list parse_date connected client_list p =
    (if \<not> connected then Inl (Error ''Not connected to FTP server'')
     else
       (case client_list p of
          Inl e \<Rightarrow> Inl (wrap ''Failed to list FTP directory: '' e)
        | Inr files \<Rightarrow>
            Inr (map (\<lambda>f. \<lparr>name = ftp_name f, fsize = ftp_size f, date = parse_date (ftp_date f),
                           ftype = (if ftp_isDirectory f then Directory else File),
                           isDirectory = ftp_isDirectory f,
                           modifyTime = Some (parse_date (ftp_date f))\<rparr>)
                   (filter (\<lambda>f. \<not> ftp_isDirectory f) files))))"

record sftp_entry =
  sftp_name :: string
  sftp_size :: int
  sftp_type :: char
  sftp_modifyTime :: js_number

definition sftp_list ::
  "bool \<Rightarrow> (string \<Rightarrow> error + sftp_entry list) \<Rightarrow> string \<Rightarrow> error + file_info list" where
  "sftp_list connected client_list p =
    (if \<not> connected then Inl (Error ''Not connected to SFTP server'')
     else
       (case client_list p of
          Inl e \<Rightarrow> Inl (wrap ''Failed to list SFTP directory: '' e)
        | Inr files \<Rightarrow>
            Inr (map (\<lambda>f. \<lparr>name = sftp_name f, fsize = sftp_size f, date = sftp_modifyTime f,
                           ftype = (if sftp_type f = CHR ''d'' then Directory else File),
                           isDirectory = (sftp_type f = CHR ''d''),
                           modifyTime = Some (sftp_modifyTime f)\<rparr>)
                   (filter (\<lambda>f. sftp_type f = CHR ''-'') files))))"

section \<open>A model of the POSIX path module\<close>

text \<open>
  The theorems below hold for every \<open>node_lib\<close>. To run the definitions on concrete
  inputs, this section gives one: the \<^verbatim>\<open>path.posix\<close> functions of Node.js as its
  documentation describes them, with the regular-expression engine left as a parameter.
\<close>

text \<open>The last component of a path, trailing slashes ignored.\<close>

definition posix_basename :: "string \<Rightarrow> string" where
  "posix_basename p =
     rev (takeWhile (\<lambda>c. c \<noteq> CHR ''/'') (dropWhile (\<lambda>c. c = CHR ''/'') (rev p)))"

text \<open>The position of the last dot of a component, if it has one.\<close>

definition last_dot :: "string \<Rightarrow> nat option" where
  "last_dot b =
     (if CHR ''.'' \<in> set b
      then Some (length b - Suc (length (takeWhile (\<lambda>c. c \<noteq> CHR ''.'') (rev b))))
      else None)"

text \<open>A path that is the root slash followed by a single component (and by trailing
  slashes, if any): \<^verbatim>\<open>path.parse\<close> finds no separator in front of its component.\<close>

definition root_component :: "string \<Rightarrow> bool" where
  "root_component p =
     (case p of
        [] \<Rightarrow> False
      | c # cs \<Rightarrow>
          c = CHR ''/'' \<and> CHR ''/'' \<notin> set (dropWhile (\<lambda>c. c = CHR ''/'') (rev cs)))"

text \<open>
  The extension starts at the last dot of the last component; there is none when the
  component has no dot, when its last dot is its first character, or when it is \<^verbatim>\<open>..\<close>.
  The test for \<^verbatim>\<open>..\<close> compares positions from the separator in front of the component,
  so it does not apply to a root component: \<^verbatim>\<open>/..\<close> has the name \<^verbatim>\<open>.\<close> and the
  extension \<^verbatim>\<open>.\<close>.
\<close>

definition no_extension :: "string \<Rightarrow> nat \<Rightarrow> bool" where
  "no_extension p i =
     (i = 0 \<or> (posix_basename p = ''..'' \<and> \<not> root_component p))"

definition posix_parse_ext :: "string \<Rightarrow> string" where
  "posix_parse_ext p =
     (let b = posix_basename p in
      case last_dot b of
        None \<Rightarrow> []
      | Some i \<Rightarrow> if no_extension p i then [] else drop i b)"

definition posix_parse_name :: "string \<Rightarrow> string" where
  "posix_parse_name p =
     (let b = posix_basename p in
      case last_dot b of
        None \<Rightarrow> b
      | Some i \<Rightarrow> if no_extension p i then b else take i b)"

text \<open>
  \<^verbatim>\<open>path.dirname\<close>: the path up to the slash in front of its last component;
  \<^verbatim>\<open>.\<close> or \<^verbatim>\<open>/\<close> when there is no such slash after the first character.
\<close>

definition posix_dirname :: "string \<Rightarrow> string" where
  "posix_dirname p =
     (case p of
        [] \<Rightarrow> ''.''
      | c # cs \<Rightarrow>
          (let hasRoot = (c = CHR ''/'');
               front = dropWhile (\<lambda>c. c \<noteq> CHR ''/'') (dropWhile (\<lambda>c. c = CHR ''/'') (rev cs))
           in if front = [] then (if hasRoot then ''/'' else ''.'')
              else if hasRoot \<and> length front = 1 then ''//''
              else take (length front) p))"

fun split_on :: "char \<Rightarrow> string \<Rightarrow> string list" where
  "split_on sep [] = [[]]"
| "split_on sep (c # cs) =
     (if c = sep then [] # split_on sep cs
      else (case split_on sep cs of
              [] \<Rightarrow> [[c]]
            | s # ss \<Rightarrow> (c # s) # ss))"

text \<open>Resolution of \<^verbatim>\<open>.\<close> and \<^verbatim>\<open>..\<close> segments; the segments kept so far are in
  \<open>kept\<close>, last first.\<close>

fun resolve_segments :: "bool \<Rightarrow> string list \<Rightarrow> string list \<Rightarrow> string list" where
  "resolve_segments allowAboveRoot [] kept = rev kept"
| "resolve_segments allowAboveRoot (s # ss) kept =
     (if s = [] \<or> s = ''.'' then resolve_segments allowAboveRoot ss kept
      else if s = ''..'' then
        (case kept of
           [] \<Rightarrow> resolve_segments allowAboveRoot ss (if allowAboveRoot then [''..''] else [])
         | k # ks \<Rightarrow>
             if k = ''..'' then resolve_segments allowAboveRoot ss (s # kept)
             else resolve_segments allowAboveRoot ss ks)
      else resolve_segments allowAboveRoot ss (s # kept))"

fun join_with :: "string \<Rightarrow> string list \<Rightarrow> string" where
  "join_with sep [] = []"
| "join_with sep [s] = s"
| "join_with sep (s # t # ss) = s @ sep @ join_with sep (t # ss)"

definition posix_normalize :: "string \<Rightarrow> string" where
  "posix_normalize p =
     (if p = [] then ''.''
      else
        (let isAbsolute = (hd p = CHR ''/'');
             trailing = (last p = CHR ''/'');
             body = join_with ''/'' (resolve_segments (\<not> isAbsolute) (split_on CHR ''/'' p) [])
         in if body = [] then (if isAbsolute then ''/'' else if trailing then ''./'' else ''.'')
            else (if isAbsolute then ''/'' else []) @ body @ (if trailing then ''/'' else [])))"

definition posix_join :: "string \<Rightarrow> string \<Rightarrow> string" where
  "posix_join a b =
     (if a = [] \<and> b = [] then ''.''
      else if a = [] then posix_normalize b
      else if b = [] then posix_normalize a
      else posix_normalize (a @ ''/'' @ b))"

definition posix_lib :: "(string \<Rightarrow> string \<Rightarrow> bool option) \<Rightarrow> node_lib" where
  "posix_lib engine =
     \<lparr>path_basename = posix_basename, path_dirname = posix_dirname,
      path_parse_name = posix_parse_name, path_parse_ext = posix_parse_ext,
      path_join = posix_join, regexp_test = engine\<rparr>"

section \<open>Handlers used in the examples\<close>

text \<open>A handler in front of a server that holds the given files in one directory and
  answers every request.\<close>

definition serving_handler :: "file_info list \<Rightarrow> handler" where
  "serving_handler files =
     \<lparr>h_connect = (\<lambda>config. Inr ()),
      h_disconnect = Inr (),
      h_list = (\<lambda>p. Inr files),
      h_download = (\<lambda>k p. Inr ''data''),
      h_upload = (\<lambda>l r. Inr ()),
      h_stat = (\<lambda>p. Inr None),
      h_exists = (\<lambda>p. Inr False),
      h_lastModified = (\<lambda>p. Inr None),
      h_getFileInfo = (\<lambda>p. Inr \<lparr>isJson = False, lastModified = None\<rparr>)\<rparr>"

text \<open>A handler whose server cannot be reached: every request fails with the given
  message; closing it is harmless.\<close>

definition failing_handler :: "string \<Rightarrow> handler" where
  "failing_handler msg =
     \<lparr>h_connect = (\<lambda>config. Inl (Error msg)),
      h_disconnect = Inr (),
      h_list = (\<lambda>p. Inl (Error msg)),
      h_download = (\<lambda>k p. Inl (Error msg)),
      h_upload = (\<lambda>l r. Inl (Error msg)),
      h_stat = (\<lambda>p. Inl (Error msg)),
      h_exists = (\<lambda>p. Inl (Error msg)),
      h_lastModified = (\<lambda>p. Inl (Error msg)),
      h_getFileInfo = (\<lambda>p. Inl (Error msg))\<rparr>"

definition host_config :: "string \<Rightarrow> connection_config" where
  "host_config h =
     \<lparr>host = h, username = None, password = None, port = None, secure = None,
      directoryPath = None, timeout = None\<rparr>"

definition plain_file :: "string \<Rightarrow> int \<Rightarrow> int option \<Rightarrow> file_info" where
  "plain_file n d m =
     \<lparr>name = n, fsize = 0, date = Num d, ftype = File, isDirectory = False,
      modifyTime = map_option Num m\<rparr>"

text \<open>A file as \<^verbatim>\<open>FtpAdapter.list\<close> builds it from a date text: the date and
  \<^verbatim>\<open>modifyTime\<close> are both the parsed time, \<open>NaN\<close> when the text is no date.\<close>

definition listed_file :: "string \<Rightarrow> js_number \<Rightarrow> file_info" where
  "listed_file n t =
     \<lparr>name = n, fsize = 0, date = t, ftype = File, isDirectory = False, modifyTime = Some t\<rparr>"

definition directory_entry :: "string \<Rightarrow> file_info" where
  "directory_entry n =
     \<lparr>name = n, fsize = 0, date = Num 0, ftype = Directory, isDirectory = True,
      modifyTime = None\<rparr>"




text \<open>A handler whose download fails on the first \<open>n\<close> attempts and succeeds afterwards.\<close>

definition flaky_handler :: "nat \<Rightarrow> handler" where
  "flaky_handler n =
     (serving_handler [])
       \<lparr>h_download := (\<lambda>k p. if k < n then Inl (Error ''Network error'') else Inr ''success'')\<rparr>"

section \<open>The statements of the specification\<close>

text \<open>
  The definitions of this section are written from the words of the specification, to be
  compared with the definitions above, which are written from the code.
\<close>

subsection \<open>Date and version suffixes\<close>

definition is_digit :: "char \<Rightarrow> bool" where
  "is_digit c = (c \<in> set ''0123456789'')"

text \<open>A string of exactly \<open>n\<close> digits.\<close>

definition all_digits :: "nat \<Rightarrow> string \<Rightarrow> bool" where
  "all_digits n s = (length s = n \<and> list_all is_digit s)"

text \<open>A string without its first character when that is \<open>x\<close>.\<close>

definition drop_optional :: "char \<Rightarrow> string \<Rightarrow> string" where
  "drop_optional x s = (case s of [] \<Rightarrow> [] | c # cs \<Rightarrow> if c = x then cs else s)"

text \<open>Three groups of \<open>a\<close>, \<open>b\<close> and \<open>c\<close> digits, each hyphen between them optional:
  \<^verbatim>\<open>YYYY[-]MM[-]DD\<close> is \<open>date_form 4 2 2\<close> and \<^verbatim>\<open>DD[-]MM[-]YYYY\<close> is \<open>date_form 2 2 4\<close>.\<close>

definition date_form :: "nat \<Rightarrow> nat \<Rightarrow> nat \<Rightarrow> string \<Rightarrow> bool" where
  "date_form a b c s =
     (all_digits a (take a s)
      \<and> (let r = drop_optional CHR ''-'' (drop a s) in
         all_digits b (take b r) \<and> all_digits c (drop_optional CHR ''-'' (drop b r))))"

text \<open>A \<^verbatim>\<open>v\<close>-prefixed dotted version: \<^verbatim>\<open>v\<close>, then groups of digits separated by dots.\<close>

definition version_form :: "string \<Rightarrow> bool" where
  "version_form s =
     (case s of
        [] \<Rightarrow> False
      | c # r \<Rightarrow>
          c = CHR ''v'' \<and> list_all (\<lambda>g. g \<noteq> [] \<and> list_all is_digit g) (split_on CHR ''.'' r))"

text \<open>A time \<^verbatim>\<open>HH:MM\<close>.\<close>

definition time_form :: "string \<Rightarrow> bool" where
  "time_form s =
     (all_digits 2 (take 2 s) \<and> take 1 (drop 2 s) = '':'' \<and> all_digits 2 (drop 3 s))"

text \<open>
  The fixed set of the specification: ISO-ish date \<^verbatim>\<open>YYYY[-]MM[-]DD\<close>,
  \<^verbatim>\<open>DD[-]MM[-]YYYY\<close>, bare \<^verbatim>\<open>YYYYMMDD\<close>, \<^verbatim>\<open>YYMMDD\<close>, bare \<^verbatim>\<open>YYYY\<close>, numeric suffix of one
  or two digits, \<^verbatim>\<open>v\<close>-prefixed dotted version, \<^verbatim>\<open>HH:MM\<close> time.
\<close>

definition suffix_forms :: "(string \<Rightarrow> bool) list" where
  "suffix_forms =
     [date_form 4 2 2, date_form 2 2 4, all_digits 8, all_digits 6, all_digits 4,
      (\<lambda>s. all_digits 1 s \<or> all_digits 2 s), version_form, time_form]"

text \<open>The suffix matches one of the forms, each tested with an optional leading
  underscore.\<close>

definition suffix_stated :: "string \<Rightarrow> bool" where
  "suffix_stated s = list_ex (\<lambda>form. form (drop_optional CHR ''_'' s)) suffix_forms"

text \<open>
  A suffix that begins like a version or a date: an optional underscore, an optional
  \<^verbatim>\<open>v\<close>, then a digit.
\<close>

definition starts_with_digit :: "string \<Rightarrow> bool" where
  "starts_with_digit s = (case s of [] \<Rightarrow> False | c # cs \<Rightarrow> is_digit c)"

definition version_like :: "string \<Rightarrow> bool" where
  "version_like s = starts_with_digit (drop_optional CHR ''v'' (drop_optional CHR ''_'' s))"

subsection \<open>Smart matching\<close>

text \<open>
  The smart strategy, with the test of the remaining suffix as a parameter: the name
  equals \<open>basename + extname\<close>; or the extension equals \<open>extname\<close> without regard to case
  whenever \<open>extname\<close> is not empty, and the normalised base name equals the normalised
  target, or starts with it and the rest passes the test.
\<close>

definition smart_rule ::
  "(string \<Rightarrow> bool) \<Rightarrow> node_lib \<Rightarrow> string \<Rightarrow> string \<Rightarrow> string \<Rightarrow> bool" where
  "smart_rule suffix_ok lib fileName b e =
    (fileName = b @ e
     \<or> ((e \<noteq> [] \<longrightarrow> toLowerCase (path_parse_ext lib fileName) = toLowerCase e)
        \<and> (normalizeString (path_parse_name lib fileName) = normalizeString b
           \<or> (startsWith (normalizeString (path_parse_name lib fileName)) (normalizeString b)
              \<and> suffix_ok
                   (drop (length (normalizeString b))
                      (normalizeString (path_parse_name lib fileName)))))))"

text \<open>As stated: the remaining suffix matches one of the fixed forms.\<close>

definition smartMatch_stated :: "node_lib \<Rightarrow> string \<Rightarrow> string \<Rightarrow> string \<Rightarrow> bool" where
  "smartMatch_stated = smart_rule suffix_stated"



subsection \<open>Timestamps\<close>




subsection \<open>Retries\<close>

text \<open>
  The course of a download as stated: attempts \<open>i\<close> to \<open>k\<close>, with a wait of
  \<open>d * 2 ^ j\<close> milliseconds after each attempt \<open>j\<close> but the last.
\<close>

definition retry_trace :: "int \<Rightarrow> nat \<Rightarrow> nat \<Rightarrow> event list" where
  "retry_trace d i k =
     concat (map (\<lambda>j. [Attempt j, Sleep (d * 2 ^ j)]) [i..<k]) @ [Attempt k]"

fun is_attempt :: "event \<Rightarrow> bool" where
  "is_attempt (Attempt k) = True"
| "is_attempt (Sleep ms) = False"

section \<open>Auxiliary definitions\<close>

text \<open>A regular expression that is seen to match no string at all.\<close>

fun dead :: "rx \<Rightarrow> bool" where
  "dead Zero = True"
| "dead Eps = False"
| "dead (Cls cs) = (cs = [])"
| "dead (Seq r s) = (dead r \<or> dead s)"
| "dead (Alt r s) = (dead r \<and> dead s)"
| "dead (Star r) = False"


section \<open>Protocol detection: properties\<close>

lemma startsWith_iff: "startsWith s p \<longleftrightarrow> (\<exists>t. s = p @ t)"
  unfolding startsWith_def
  by (metis append_eq_conv_conj append_take_drop_id)

lemma startsWith_shorter: "startsWith s (p @ q) \<Longrightarrow> startsWith s p"
  by (auto simp: startsWith_iff)

lemma detect_sftp: "detect (''sftp:'' @ t) None = Inr Sftp"
  by (simp add: detect_def startsWith_def)

lemma detect_ftps: "detect (''ftps:'' @ t) None = Inr Ftps"
  by (simp add: detect_def startsWith_def)

lemma detect_ftp: "detect (''ftp:'' @ t) None = Inr Ftp"
  by (simp add: detect_def startsWith_def)

lemma detect_https: "detect (''https://'' @ t) None = Inr Https"
  by (simp add: detect_def startsWith_def)

lemma detect_http: "detect (''http://'' @ t) None = Inr Http"
  by (simp add: detect_def startsWith_def)

lemma detect_unsupported:
  assumes "str_includes h ''://''"
    and "\<not> startsWith h ''sftp:''" and "\<not> startsWith h ''ftps:''" and "\<not> startsWith h ''ftp:''"
    and "split_first h ''://'' \<notin> set known_schemes"
  shows "detect h None = Inl (Error (''Unsupported protocol: '' @ split_first h ''://''))"
proof -
  have a: "\<not> startsWith h ''sftp://''"
    using assms(2) startsWith_shorter [of h "''sftp:''" "''//''"] by auto
  have b: "\<not> startsWith h ''ftps://''"
    using assms(3) startsWith_shorter [of h "''ftps:''" "''//''"] by auto
  have c: "\<not> startsWith h ''ftp://''"
    using assms(4) startsWith_shorter [of h "''ftp:''" "''//''"] by auto
  have d: "\<not> startsWith h ''https://''"
  proof
    assume "startsWith h ''https://''"
    then obtain t where "h = ''https://'' @ t" by (auto simp: startsWith_iff)
    then have "split_first h ''://'' = ''https''" by (simp add: startsWith_def)
    with assms(5) show False by (simp add: known_schemes_def)
  qed
  have e: "\<not> startsWith h ''http://''"
  proof
    assume "startsWith h ''http://''"
    then obtain t where "h = ''http://'' @ t" by (auto simp: startsWith_iff)
    then have "split_first h ''://'' = ''http''" by (simp add: startsWith_def)
    with assms(5) show False by (simp add: known_schemes_def)
  qed
  show ?thesis using assms a b c d e by (simp add: detect_def)
qed

text \<open>
  Claim C6, as amended. Without a mode hint, \<open>detect\<close> returns the matching tag for a
  host that begins with \<^verbatim>\<open>sftp\<close>, \<^verbatim>\<open>ftps\<close> or \<^verbatim>\<open>ftp\<close> in the \<^verbatim>\<open>scheme://\<close> or the
  \<^verbatim>\<open>scheme:\<close> form, and for a host that begins with \<^verbatim>\<open>https://\<close> or \<^verbatim>\<open>http://\<close>. For a
  host that contains \<^verbatim>\<open>://\<close>, does not begin with \<^verbatim>\<open>sftp:\<close>, \<^verbatim>\<open>ftps:\<close> or \<^verbatim>\<open>ftp:\<close>, and
  whose text before the first \<^verbatim>\<open>://\<close> is not one of the five tags, \<open>detect\<close> fails with
  the error \<^verbatim>\<open>Unsupported protocol: \<close> followed by that text.
\<close>

theorem detect_scheme_prefix:
  "((startsWith h ''sftp://'' \<or> startsWith h ''sftp:'') \<longrightarrow> detect h None = Inr Sftp)
   \<and> ((startsWith h ''ftps://'' \<or> startsWith h ''ftps:'') \<longrightarrow> detect h None = Inr Ftps)
   \<and> ((startsWith h ''ftp://'' \<or> startsWith h ''ftp:'') \<longrightarrow> detect h None = Inr Ftp)
   \<and> (startsWith h ''https://'' \<longrightarrow> detect h None = Inr Https)
   \<and> (startsWith h ''http://'' \<longrightarrow> detect h None = Inr Http)
   \<and> (str_includes h ''://'' \<and> \<not> startsWith h ''sftp:'' \<and> \<not> startsWith h ''ftps:''
        \<and> \<not> startsWith h ''ftp:'' \<and> split_first h ''://'' \<notin> set known_schemes
      \<longrightarrow> detect h None = Inl (Error (''Unsupported protocol: '' @ split_first h ''://'')))"
proof (intro conjI impI)
  assume "startsWith h ''sftp://'' \<or> startsWith h ''sftp:''"
  then have "startsWith h ''sftp:''"
    using startsWith_shorter [of h "''sftp:''" "''//''"] by auto
  then show "detect h None = Inr Sftp"
    using detect_sftp by (auto simp: startsWith_iff)
next
  assume "startsWith h ''ftps://'' \<or> startsWith h ''ftps:''"
  then have "startsWith h ''ftps:''"
    using startsWith_shorter [of h "''ftps:''" "''//''"] by auto
  then show "detect h None = Inr Ftps"
    using detect_ftps by (auto simp: startsWith_iff)
next
  assume "startsWith h ''ftp://'' \<or> startsWith h ''ftp:''"
  then have "startsWith h ''ftp:''"
    using startsWith_shorter [of h "''ftp:''" "''//''"] by auto
  then show "detect h None = Inr Ftp"
    using detect_ftp by (auto simp: startsWith_iff)
next
  assume "startsWith h ''https://''"
  then show "detect h None = Inr Https"
    using detect_https by (auto simp: startsWith_iff)
next
  assume "startsWith h ''http://''"
  then show "detect h None = Inr Http"
    using detect_http by (auto simp: startsWith_iff)
next
  assume "str_includes h ''://'' \<and> \<not> startsWith h ''sftp:'' \<and> \<not> startsWith h ''ftps:''
        \<and> \<not> startsWith h ''ftp:'' \<and> split_first h ''://'' \<notin> set known_schemes"
  then show "detect h None = Inl (Error (''Unsupported protocol: '' @ split_first h ''://''))"
    using detect_unsupported by blast
qed

theorem detect_scheme_prefix_witness:
  "detect ''sftp://example.com'' None = Inr Sftp
   \<and> detect ''ftps:example.com'' None = Inr Ftps
   \<and> detect ''ftp://example.com'' None = Inr Ftp
   \<and> detect ''https://example.com'' None = Inr Https
   \<and> detect ''http://example.com'' None = Inr Http
   \<and> detect ''unknown://example.com'' None = Inl (Error ''Unsupported protocol: unknown'')"
proof -
  have 1: "startsWith ''sftp://example.com'' ''sftp://''" by (simp add: startsWith_def)
  have 2: "startsWith ''ftps:example.com'' ''ftps:''" by (simp add: startsWith_def)
  have 3: "startsWith ''ftp://example.com'' ''ftp://''" by (simp add: startsWith_def)
  have 4: "startsWith ''https://example.com'' ''https://''" by (simp add: startsWith_def)
  have 5: "startsWith ''http://example.com'' ''http://''" by (simp add: startsWith_def)
  have 6: "str_includes ''unknown://example.com'' ''://''
      \<and> \<not> startsWith ''unknown://example.com'' ''sftp:''
      \<and> \<not> startsWith ''unknown://example.com'' ''ftps:''
      \<and> \<not> startsWith ''unknown://example.com'' ''ftp:''
      \<and> split_first ''unknown://example.com'' ''://'' \<notin> set known_schemes"
    by (simp add: startsWith_def known_schemes_def)
  have 7: "split_first ''unknown://example.com'' ''://'' = ''unknown''"
    by (simp add: startsWith_def)
  show ?thesis
    using detect_scheme_prefix [of "''sftp://example.com''"] 1
      detect_scheme_prefix [of "''ftps:example.com''"] 2
      detect_scheme_prefix [of "''ftp://example.com''"] 3
      detect_scheme_prefix [of "''https://example.com''"] 4
      detect_scheme_prefix [of "''http://example.com''"] 5
      detect_scheme_prefix [of "''unknown://example.com''"] 6 7
    by simp
qed

text \<open>
  Claim C6 as stated fails. The host \<^verbatim>\<open>http:sftp.example.com\<close> begins with the prefix
  \<^verbatim>\<open>http:\<close>, and \<open>detect\<close> answers \<open>Sftp\<close>: the \<^verbatim>\<open>scheme:\<close> form is tested for the three
  file-transfer tags only, and the substring fallback finds \<^verbatim>\<open>sftp\<close> first. The host
  \<^verbatim>\<open>sftp:foo://bar\<close> contains \<^verbatim>\<open>://\<close> after the text \<^verbatim>\<open>sftp:foo\<close>, which is not one of
  the five tags, and \<open>detect\<close> answers \<open>Sftp\<close> instead of failing.
\<close>

theorem detect_scheme_prefix_counterexample:
  "startsWith ''http:sftp.example.com'' ''http:''
   \<and> detect ''http:sftp.example.com'' None = Inr Sftp
   \<and> str_includes ''sftp:foo://bar'' ''://''
   \<and> split_first ''sftp:foo://bar'' ''://'' = ''sftp:foo''
   \<and> ''sftp:foo'' \<notin> set known_schemes
   \<and> detect ''sftp:foo://bar'' None = Inr Sftp"
  by (simp add: detect_def startsWith_def known_schemes_def)

lemma normalizeHost_example: "normalizeHost ''sftp://example.com:22'' = ''example.com:22''"
  by (simp add: normalizeHost_def scheme_alternatives_def startsWith_def)

lemma normalizeHost_no_prefix:
  assumes "\<forall>t \<in> set scheme_alternatives. \<not> startsWith s (t @ '':'')"
  shows "normalizeHost s = s"
proof -
  have "\<forall>t \<in> set scheme_alternatives. \<not> startsWith s (t @ ''://'')"
    using assms startsWith_shorter [of s _ "''//''"] by (auto simp: scheme_alternatives_def)
  with assms show ?thesis
    by (simp add: normalizeHost_def scheme_alternatives_def)
qed

lemma replace_prefix_none:
  "\<forall>p \<in> set ps. \<not> startsWith s p \<Longrightarrow> replace_prefix ps s = s"
  by (induction ps) auto

text \<open>When the rest does not begin with \<^verbatim>\<open>scheme:\<close> itself, one prefix is stripped and the
  rest is returned as it is.\<close>

lemma normalizeHost_one_prefix:
  assumes "t \<in> set scheme_alternatives"
    and "\<forall>u \<in> set scheme_alternatives. \<not> startsWith rest (u @ '':'')"
  shows "normalizeHost (t @ ''://'' @ rest) = rest"
    and "\<not> startsWith rest ''//'' \<Longrightarrow> normalizeHost (t @ '':'' @ rest) = rest"
proof -
  have second: "replace_prefix (map (\<lambda>t. t @ '':'') scheme_alternatives) rest = rest"
    using assms(2) by (intro replace_prefix_none) auto
  have first: "replace_prefix (map (\<lambda>t. t @ ''://'') scheme_alternatives) (t @ ''://'' @ rest) = rest"
    using assms(1) by (auto simp: scheme_alternatives_def startsWith_def)
  show "normalizeHost (t @ ''://'' @ rest) = rest"
    by (simp only: normalizeHost_def first second)
  assume n: "\<not> startsWith rest ''//''"
  then have "take (Suc (Suc 0)) rest \<noteq> ''//''" by (simp add: startsWith_def)
  then have a: "replace_prefix (map (\<lambda>t. t @ ''://'') scheme_alternatives) (t @ '':'' @ rest)
            = t @ '':'' @ rest"
    using assms(1) by (auto simp: scheme_alternatives_def startsWith_def eval_nat_numeral)
  have b: "replace_prefix (map (\<lambda>t. t @ '':'') scheme_alternatives) (t @ '':'' @ rest) = rest"
    using assms(1) by (auto simp: scheme_alternatives_def startsWith_def)
  show "normalizeHost (t @ '':'' @ rest) = rest"
    by (simp only: normalizeHost_def a b)
qed

text \<open>
  Claim C9: \<open>normalizeHost\<close> strips exactly one leading scheme prefix and leaves the rest
  of the string untouched. The code runs two replacements in a row, so the rest that the
  first one leaves is stripped again when it begins with \<^verbatim>\<open>scheme:\<close> itself: for a
  server named \<^verbatim>\<open>sftp\<close> on port 22 the host and the colon are removed with the scheme.
\<close>

theorem normalizeHost_strips_twice:
  "normalizeHost ''sftp://sftp:22'' = ''22''"
  by (simp add: normalizeHost_def scheme_alternatives_def startsWith_def)

section \<open>Connection management: properties\<close>

lemma connect_rejected_unchanged:
  "host config = [] \<or> detect (host config) None = Inl e
     \<Longrightarrow> snd (connect classes config c) = c"
  by (auto simp: connect_def)

lemma connect_reaches_handler:
  assumes "host config \<noteq> []" and "detect (host config) None = Inr p"
  shows "isConnected (snd (connect classes config c))"
    and "getProtocol (snd (connect classes config c)) = Some p"
    and "getConnectionConfig (snd (connect classes config c)) = Some config"
  using assms
  by (simp_all add: connect_def Let_def isConnected_def getProtocol_def
      getConnectionConfig_def)

text \<open>
  Claim C1: a failed \<open>connect\<close> leaves the client disconnected, with protocol and
  configuration as before. The code stores the protocol, the configuration and the new
  handler before it calls the handler's connect: when that call fails, a fresh client
  reports \<open>isConnected\<close> with the protocol and the configuration of the failed attempt.
\<close>

theorem connect_handler_failure_keeps_fields:
  "connect \<lparr>newFtpAdapter = failing_handler ''FTP connection failed: ECONNREFUSED'',
            newSftpAdapter = serving_handler [], newHttpAdapter = serving_handler []\<rparr>
     (host_config ''ftp://example.com'') new_client
   = (Inl (Error ''FTP connection failed: ECONNREFUSED''),
      \<lparr>adapter = Some (failing_handler ''FTP connection failed: ECONNREFUSED''),
       protocol = Some Ftp,
       connectionConfig = Some (host_config ''ftp://example.com'')\<rparr>)
   \<and> isConnected new_client = False
   \<and> isConnected (snd (connect
        \<lparr>newFtpAdapter = failing_handler ''FTP connection failed: ECONNREFUSED'',
         newSftpAdapter = serving_handler [], newHttpAdapter = serving_handler []\<rparr>
        (host_config ''ftp://example.com'') new_client))"
  by (simp add: connect_def detect_def startsWith_def host_config_def new_client_def
      isConnected_def failing_handler_def)

text \<open>
  Claim C2, as amended. For a connected client, \<open>disconnect\<close> clears the three fields
  together when the handler's own disconnect succeeds; when it fails, the error is
  passed on and the three fields keep their values. In both cases the fields are all
  cleared or all kept.
\<close>

theorem disconnect_all_or_nothing:
  assumes "adapter c = Some a"
  shows "(h_disconnect a = Inr () \<longrightarrow> disconnect c = (Inr (), new_client))
       \<and> (h_disconnect a = Inl e \<longrightarrow> disconnect c = (Inl e, c))
       \<and> (snd (disconnect c) = new_client \<or> snd (disconnect c) = c)"
  using assms by (auto simp: disconnect_def new_client_def split: sum.splits)

theorem disconnect_all_or_nothing_witness:
  "disconnect \<lparr>adapter = Some (serving_handler []), protocol = Some Sftp,
       connectionConfig = Some (host_config ''sftp://example.com'')\<rparr>
     = (Inr (), new_client)
   \<and> disconnect
       \<lparr>adapter = Some ((serving_handler [])\<lparr>h_disconnect := Inl (Error ''end failed'')\<rparr>),
        protocol = Some Sftp, connectionConfig = Some (host_config ''sftp://example.com'')\<rparr>
     = (Inl (Error ''end failed''),
        \<lparr>adapter = Some ((serving_handler [])\<lparr>h_disconnect := Inl (Error ''end failed'')\<rparr>),
         protocol = Some Sftp, connectionConfig = Some (host_config ''sftp://example.com'')\<rparr>)"
  using disconnect_all_or_nothing
      [of "\<lparr>adapter = Some (serving_handler []), protocol = Some Sftp,
            connectionConfig = Some (host_config ''sftp://example.com'')\<rparr>"
          "serving_handler []"]
    disconnect_all_or_nothing
      [of "\<lparr>adapter = Some ((serving_handler [])\<lparr>h_disconnect := Inl (Error ''end failed'')\<rparr>),
            protocol = Some Sftp, connectionConfig = Some (host_config ''sftp://example.com'')\<rparr>"
          "(serving_handler [])\<lparr>h_disconnect := Inl (Error ''end failed'')\<rparr>"
          "Error ''end failed''"]
  by (simp add: serving_handler_def)

text \<open>
  Claim C2 as stated fails: a connected client whose handler fails to disconnect is
  still connected after \<open>disconnect\<close>, with its protocol in place.
\<close>

theorem disconnect_failure_counterexample:
  "isConnected
     \<lparr>adapter = Some ((serving_handler [])\<lparr>h_disconnect := Inl (Error ''end failed'')\<rparr>),
      protocol = Some Sftp, connectionConfig = Some (host_config ''sftp://example.com'')\<rparr>
   \<and> isConnected (snd (disconnect
       \<lparr>adapter = Some ((serving_handler [])\<lparr>h_disconnect := Inl (Error ''end failed'')\<rparr>),
        protocol = Some Sftp, connectionConfig = Some (host_config ''sftp://example.com'')\<rparr>))
   \<and> getProtocol (snd (disconnect
       \<lparr>adapter = Some ((serving_handler [])\<lparr>h_disconnect := Inl (Error ''end failed'')\<rparr>),
        protocol = Some Sftp, connectionConfig = Some (host_config ''sftp://example.com'')\<rparr>))
     = Some Sftp"
  by (simp add: disconnect_def isConnected_def getProtocol_def serving_handler_def)

section \<open>Listing: properties\<close>

text \<open>
  Claim C4. For a connected client and every list of entries that the handler's list
  returns, \<open>list_op\<close> without the option (or with a false one) returns exactly the entries
  that are not directories, and with \<^verbatim>\<open>includeDirectories: true\<close> returns the handler's
  list itself: every entry, in the handler's order.
\<close>

theorem list_directories_filter:
  assumes "adapter c = Some a" and "h_list a p = Inr files"
  shows "(includeDirectories options \<noteq> Some True \<longrightarrow>
            fst (list_op c p options) = Inr (filter (\<lambda>f. \<not> isDirectory f) files))
       \<and> (includeDirectories options = Some True \<longrightarrow> fst (list_op c p options) = Inr files)
       \<and> fst (list_op c p no_list_options) = Inr (filter (\<lambda>f. \<not> isDirectory f) files)"
  using assms by (simp add: list_op_def no_list_options_def)

theorem list_directories_filter_witness:
  "fst (list_op
      \<lparr>adapter = Some (serving_handler [plain_file ''file1.txt'' 0 None, directory_entry ''dir1'']),
       protocol = None, connectionConfig = None\<rparr> ''/test'' no_list_options)
     = Inr [plain_file ''file1.txt'' 0 None]
   \<and> fst (list_op
      \<lparr>adapter = Some (serving_handler [plain_file ''file1.txt'' 0 None, directory_entry ''dir1'']),
       protocol = None, connectionConfig = None\<rparr> ''/test''
      (no_list_options\<lparr>includeDirectories := Some True\<rparr>))
     = Inr [plain_file ''file1.txt'' 0 None, directory_entry ''dir1'']"
  using list_directories_filter
      [of "\<lparr>adapter = Some (serving_handler [plain_file ''file1.txt'' 0 None, directory_entry ''dir1'']),
            protocol = None, connectionConfig = None\<rparr>"
          "serving_handler [plain_file ''file1.txt'' 0 None, directory_entry ''dir1'']"
          "''/test''" "[plain_file ''file1.txt'' 0 None, directory_entry ''dir1'']"
          "no_list_options\<lparr>includeDirectories := Some True\<rparr>"]
  by (simp add: serving_handler_def plain_file_def directory_entry_def no_list_options_def)

text \<open>
  The FTP and the SFTP handler drop the directories themselves, so over these two
  handlers a listing holds no directory, whatever the option is.
\<close>

lemma ftp_list_no_directories:
  "ftp_list parse_date connected client_list p = Inr files \<Longrightarrow> \<forall>f \<in> set files. \<not> isDirectory f"
  by (auto simp: ftp_list_def split: if_splits sum.splits)

lemma sftp_list_no_directories:
  "sftp_list connected client_list p = Inr files \<Longrightarrow> \<forall>f \<in> set files. \<not> isDirectory f"
  by (auto simp: sftp_list_def split: if_splits sum.splits)

lemma list_op_no_directories:
  assumes "adapter c = Some a"
    and "h_list a = ftp_list parse_date connected client_list \<or> h_list a = sftp_list connected client_list'"
    and "fst (list_op c p options) = Inr files"
  shows "\<forall>f \<in> set files. \<not> isDirectory f"
proof -
  from assms(1,3) have "\<exists>fs. h_list a p = Inr fs \<and> set files \<subseteq> set fs"
    by (auto simp: list_op_def split: sum.splits if_splits)
  then obtain fs where fs: "h_list a p = Inr fs" "set files \<subseteq> set fs" by blast
  from assms(2) fs(1) have "\<forall>f \<in> set fs. \<not> isDirectory f"
    using ftp_list_no_directories sftp_list_no_directories by metis
  with fs(2) show ?thesis by blast
qed

section \<open>Frame: properties\<close>

lemma list_op_client: "snd (list_op c p options) = c"
  by (simp add: list_op_def split: option.splits sum.splits)

lemma download_client: "snd (download c p options) = c"
  by (simp add: download_def split: option.splits)

lemma upload_client: "snd (upload c l r) = c"
  by (simp add: upload_def split: option.splits sum.splits)

lemma stat_client: "snd (stat c p) = c"
  by (simp add: stat_def split: option.splits sum.splits)

lemma exists_op_client: "snd (exists_op c p) = c"
  by (simp add: exists_op_def split: option.splits sum.splits)

lemma lastModified_op_client: "snd (lastModified_op c p) = c"
  by (simp add: lastModified_op_def split: option.splits)

lemma findFile_client: "snd (findFile lib c p t) = c"
proof -
  obtain r1 where s: "stat c p = (r1, c)"
    using stat_client [of c p] by (cases "stat c p") simp
  obtain r2 where l: "list_op c (path_dirname lib p) no_list_options = (r2, c)"
    using list_op_client [of c "path_dirname lib p" no_list_options]
    by (cases "list_op c (path_dirname lib p) no_list_options") simp
  show ?thesis
    by (simp add: findFile_def Let_def s l split: option.splits sum.splits)
qed

lemma checkForUpdates_client: "snd (checkForUpdates lib c p d t) = c"
proof -
  obtain r where f: "findFile lib c p t = (r, c)"
    using findFile_client [of lib c p t] by (cases "findFile lib c p t") simp
  show ?thesis
    by (simp add: checkForUpdates_def f split: option.splits sum.splits prod.splits)
qed

text \<open>
  Claim C10. Every data operation returns the client it was given: the handler, the
  protocol and the configuration are the same after the call as before, whether the
  operation succeeds or fails, and so are the answers of \<open>isConnected\<close>, \<open>getProtocol\<close>
  and \<open>getConnectionConfig\<close>.
\<close>

theorem data_operations_keep_fields:
  "snd (list_op c p lo) = c \<and> snd (download c p dopts) = c \<and> snd (upload c l r) = c
   \<and> snd (stat c p) = c \<and> snd (exists_op c p) = c \<and> snd (lastModified_op c p) = c
   \<and> snd (findFile lib c p t) = c \<and> snd (checkForUpdates lib c p d t) = c"
  by (simp add: list_op_client download_client upload_client stat_client exists_op_client
      lastModified_op_client findFile_client checkForUpdates_client)

section \<open>Download with retries: properties\<close>

lemma retry_trace_step:
  "i < k \<Longrightarrow> retry_trace d i k = Attempt i # Sleep (d * 2 ^ i) # retry_trace d (Suc i) k"
  by (simp add: retry_trace_def upt_conv_Cons)

lemma retry_trace_last: "retry_trace d k k = [Attempt k]"
  by (simp add: retry_trace_def)

text \<open>The course from attempt \<open>i\<close> to attempt \<open>k\<close> holds \<open>k + 1 - i\<close> attempts.\<close>

lemma attempts_retry_trace:
  "i \<le> k \<Longrightarrow> length (filter is_attempt (retry_trace d i k)) = Suc k - i"
proof (induction "k - i" arbitrary: i)
  case 0
  then show ?case by (simp add: retry_trace_last)
next
  case (Suc n)
  then have lt: "i < k" by simp
  have "length (filter is_attempt (retry_trace d (Suc i) k)) = Suc k - Suc i"
    using Suc.hyps(1) [of "Suc i"] Suc.hyps(2) lt by simp
  with lt show ?case by (simp add: retry_trace_step)
qed

text \<open>The loop returns the result of the first attempt that succeeds within the budget.\<close>

lemma download_loop_success:
  assumes "i \<le> k" and "int k \<le> r" and "h_download a k p = Inr data"
    and "\<forall>j. i \<le> j \<and> j < k \<longrightarrow> (\<exists>e. h_download a j p = Inl e)"
  shows "download_loop a p r d i = (Inr data, retry_trace d i k)"
  using assms
proof (induction "k - i" arbitrary: i)
  case 0
  then have "i = k" by simp
  with 0 show ?case
    by (subst download_loop.simps) (simp add: retry_trace_last)
next
  case (Suc n)
  then have lt: "i < k" by simp
  from Suc.prems(4) lt obtain e where e: "h_download a i p = Inl e" by auto
  have ih: "download_loop a p r d (Suc i) = (Inr data, retry_trace d (Suc i) k)"
    using Suc.hyps(1) [of "Suc i"] Suc.hyps(2) Suc.prems lt by auto
  have "int i \<le> r" "int i \<noteq> r" using lt Suc.prems(2) by auto
  then show ?case
    by (subst download_loop.simps) (simp add: e ih retry_trace_step [OF lt])
qed

text \<open>When every attempt up to the last one fails, the loop ends with the error of the
  last attempt, as it was thrown.\<close>

lemma download_loop_exhausted:
  assumes "i \<le> nat r" and "0 \<le> r" and "h_download a (nat r) p = Inl e"
    and "\<forall>j. i \<le> j \<and> j < nat r \<longrightarrow> (\<exists>e. h_download a j p = Inl e)"
  shows "download_loop a p r d i = (Inl e, retry_trace d i (nat r))"
  using assms
proof (induction "nat r - i" arbitrary: i)
  case 0
  then have "i = nat r" by simp
  with 0 show ?case
    by (subst download_loop.simps) (simp add: retry_trace_last)
next
  case (Suc n)
  then have lt: "i < nat r" by simp
  from Suc.prems(4) lt obtain e' where e: "h_download a i p = Inl e'" by auto
  have ih: "download_loop a p r d (Suc i) = (Inl e, retry_trace d (Suc i) (nat r))"
    using Suc.hyps(1) [of "Suc i"] Suc.hyps(2) Suc.prems lt by auto
  have "int i \<le> r" "int i \<noteq> r" using lt Suc.prems(2) by auto
  then show ?case
    by (subst download_loop.simps) (simp add: e ih retry_trace_step [OF lt])
qed

text \<open>
  With a number of retries \<open>r\<close> and a delay \<open>d\<close> that are both given and not 0, a download
  runs as stated: it returns at the first attempt \<open>k \<le> r\<close> that succeeds, after waits of
  \<open>d * 2 ^ j\<close>, and fails with the error of attempt \<open>r\<close> when all \<open>r + 1\<close> attempts fail.
\<close>

lemma download_retries_nonzero:
  assumes "adapter c = Some a" and "retries options = Some r" and "0 < r"
    and "retryDelay options = Some d" and "d \<noteq> 0"
  shows "int k \<le> r \<Longrightarrow> h_download a k p = Inr data
           \<Longrightarrow> \<forall>j < k. \<exists>e. h_download a j p = Inl e
           \<Longrightarrow> fst (download c p options) = (Inr data, retry_trace d 0 k)"
    and "h_download a (nat r) p = Inl e
           \<Longrightarrow> \<forall>j < nat r. \<exists>e. h_download a j p = Inl e
           \<Longrightarrow> fst (download c p options) = (Inl e, retry_trace d 0 (nat r))"
proof -
  have o: "or_default (retries options) 3 = r" "or_default (retryDelay options) 1000 = d"
    using assms by (simp_all add: or_default_def)
  show "int k \<le> r \<Longrightarrow> h_download a k p = Inr data
           \<Longrightarrow> \<forall>j < k. \<exists>e. h_download a j p = Inl e
           \<Longrightarrow> fst (download c p options) = (Inr data, retry_trace d 0 k)"
    using assms(1) o download_loop_success [of 0 k r a p data d]
    by (simp add: download_def)
  show "h_download a (nat r) p = Inl e
           \<Longrightarrow> \<forall>j < nat r. \<exists>e. h_download a j p = Inl e
           \<Longrightarrow> fst (download c p options) = (Inl e, retry_trace d 0 (nat r))"
    using assms(1,3) o download_loop_exhausted [of 0 r a p e d]
    by (simp add: download_def)
qed

text \<open>The two retry tests of the repository.\<close>

lemma download_test_default_options:
  "fst (download \<lparr>adapter = Some (flaky_handler 2), protocol = None, connectionConfig = None\<rparr>
          ''/test/file.txt'' no_download_options)
   = (Inr ''success'', [Attempt 0, Sleep 1000, Attempt 1, Sleep 2000, Attempt 2])"
  by (simp add: download_def or_default_def no_download_options_def flaky_handler_def
      serving_handler_def eval_nat_numeral download_loop.simps)

lemma download_test_max_retries:
  "fst (download
          \<lparr>adapter = Some (failing_handler ''Persistent error''), protocol = None,
           connectionConfig = None\<rparr>
          ''/test/file.txt'' (no_download_options\<lparr>retries := Some 2\<rparr>))
   = (Inl (Error ''Persistent error''),
      [Attempt 0, Sleep 1000, Attempt 1, Sleep 2000, Attempt 2])"
  by (simp add: download_def or_default_def no_download_options_def failing_handler_def
      eval_nat_numeral download_loop.simps)

text \<open>
  Claim C3: with \<open>retries = r\<close> a download makes at most \<open>r + 1\<close> attempts. The code
  reads the option as \<^verbatim>\<open>options.retries || 3\<close>, which replaces a given 0 by 3: with
  \<^verbatim>\<open>retries: 0\<close> and a handler that always fails, the download makes four attempts and
  waits 1000, 2000 and 4000 milliseconds between them, where one attempt is stated.
\<close>

theorem download_zero_retries:
  "fst (download
          \<lparr>adapter = Some (failing_handler ''Network error''), protocol = None,
           connectionConfig = None\<rparr>
          ''/test/file.txt'' (no_download_options\<lparr>retries := Some 0\<rparr>))
   = (Inl (Error ''Network error''),
      [Attempt 0, Sleep 1000, Attempt 1, Sleep 2000, Attempt 2, Sleep 4000, Attempt 3])"
  by (simp add: download_def or_default_def no_download_options_def failing_handler_def
      eval_nat_numeral download_loop.simps)

section \<open>Update detection: properties\<close>

text \<open>What the HTTP handler reports: JSON iff the content type mentions one of the two
  JSON media types; a probe that fails is reported as not JSON, without a timestamp.\<close>

lemma getFileInfo_probe:
  assumes "http_config this = Some config" and "http_isConnected this"
    and "axios_head config (if startsWith filePath ''http'' then filePath else host config @ filePath)
           = Some response"
    and "content_type response = Some ct"
  shows "\<exists>info. getFileInfo axios_head parse_date this filePath = Inr info
           \<and> isJson info = (str_includes ct ''application/json'' \<or> str_includes ct ''text/json'')"
  using assms by (simp add: getFileInfo_def Let_def)

lemma getFileInfo_failed_probe:
  assumes "http_config this = Some config" and "http_isConnected this"
    and "axios_head config (if startsWith filePath ''http'' then filePath else host config @ filePath)
           = None"
  shows "getFileInfo axios_head parse_date this filePath = Inr \<lparr>isJson = False, lastModified = None\<rparr>"
  using assms by (simp add: getFileInfo_def Let_def)



section \<open>Smart matching: properties\<close>




text \<open>The if-chain of the code is the rule with the code's own test of the suffix.\<close>

lemma smartMatch_rule: "smartMatch lib fileName b e = smart_rule isDateTimeSuffix lib fileName b e"
  by (auto simp: smartMatch_def smart_rule_def Let_def)

text \<open>A mismatched extension never matches, whatever the base name is.\<close>

lemma smartMatch_extension_mismatch:
  assumes "e \<noteq> []" and "toLowerCase (path_parse_ext lib fileName) \<noteq> toLowerCase e"
    and "fileName \<noteq> b @ e"
  shows "\<not> smartMatch lib fileName b e"
  using assms by (simp add: smartMatch_def Let_def)

subsection \<open>What the patterns accept\<close>

lemma dead_not_nullable: "dead r \<Longrightarrow> \<not> nullable r"
  by (induction r) auto

lemma dead_deriv: "dead r \<Longrightarrow> dead (deriv c r)"
  by (induction r) (auto simp: dead_not_nullable)

lemma dead_no_prefix: "dead r \<Longrightarrow> \<not> match_prefix r s"
  by (induction s arbitrary: r) (auto simp: dead_not_nullable dead_deriv)

lemma dead_no_whole: "dead r \<Longrightarrow> \<not> match_whole r s"
  by (induction s arbitrary: r) (auto simp: dead_not_nullable dead_deriv)

lemma nullable_prefix: "nullable r \<Longrightarrow> match_prefix r s"
  by (cases s) auto

lemma match_prefix_Alt: "match_prefix (Alt r q) s = (match_prefix r s \<or> match_prefix q s)"
  by (induction s arbitrary: r q) auto

lemma deriv_digit: "deriv c digit = (if is_digit c then Eps else Zero)"
  by (simp add: digit_def is_digit_def)

lemma nullable_digit: "\<not> nullable digit" and dead_digit: "\<not> dead digit"
  by (simp_all add: digit_def)

lemma deriv_lit: "deriv c (lit x) = (if c = x then Eps else Zero)"
  by (simp add: lit_def)

lemma nullable_lit: "\<not> nullable (lit x)" and dead_lit: "\<not> dead (lit x)"
  by (simp_all add: lit_def)

lemma not_digit: "\<not> is_digit CHR ''_''" "\<not> is_digit CHR ''v''"
  by (simp_all add: is_digit_def)

lemmas rx_simps = deriv_digit nullable_digit dead_digit deriv_lit nullable_lit dead_lit
  rx_opt_def rx_plus_def eval_nat_numeral not_digit

lemma version_like_cases:
  "version_like s \<longleftrightarrow>
     (\<exists>d r. is_digit d \<and> (s = d # r \<or> s = CHR ''_'' # d # r \<or> s = CHR ''v'' # d # r
                          \<or> s = CHR ''_'' # CHR ''v'' # d # r))"
  apply (cases s)
   apply (simp add: version_like_def drop_optional_def starts_with_digit_def)
  subgoal for c cs
    apply (cases cs)
     apply (auto simp: version_like_def drop_optional_def starts_with_digit_def not_digit split: list.splits if_splits)
    done
  done

lemma version_like_suffix: "version_like s \<Longrightarrow> isDateTimeSuffix s"
proof -
  assume "version_like s"
  then obtain d r where d: "is_digit d"
    and s: "s = d # r \<or> s = CHR ''_'' # d # r \<or> s = CHR ''v'' # d # r
            \<or> s = CHR ''_'' # CHR ''v'' # d # r"
    unfolding version_like_cases by blast
  have "pattern_test (patterns ! 6) s"
    using s d by (auto simp: patterns_def rx_simps match_prefix_Alt nullable_prefix)
  then show ?thesis
    by (simp add: isDateTimeSuffix_def patterns_def)
qed


lemma dead_prefix_False: "dead r \<Longrightarrow> match_prefix r s = False"
  by (simp add: dead_no_prefix)

lemma dead_whole_False: "dead r \<Longrightarrow> match_whole r s = False"
  by (simp add: dead_no_whole)

lemma not_version_like_cases:
  "\<not> version_like s \<longleftrightarrow>
     s = [] \<or> s = ''_'' \<or> s = ''v'' \<or> s = ''_v''
     \<or> (\<exists>c r. \<not> is_digit c \<and> c \<noteq> CHR ''_'' \<and> c \<noteq> CHR ''v'' \<and> s = c # r)
     \<or> (\<exists>c r. \<not> is_digit c \<and> c \<noteq> CHR ''v'' \<and> s = CHR ''_'' # c # r)
     \<or> (\<exists>c r. \<not> is_digit c \<and> s = CHR ''v'' # c # r)
     \<or> (\<exists>c r. \<not> is_digit c \<and> s = CHR ''_'' # CHR ''v'' # c # r)"
  apply (cases s)
   apply (simp add: version_like_def drop_optional_def starts_with_digit_def)
  subgoal for c cs
    apply (cases cs)
     apply (simp add: version_like_def drop_optional_def starts_with_digit_def not_digit)
    subgoal for c2 cs2
      apply (cases cs2)
       apply (auto simp: version_like_def drop_optional_def starts_with_digit_def not_digit)
      done
    done
  done

lemma suffix_version_like: "isDateTimeSuffix s \<Longrightarrow> version_like s"
proof (rule ccontr)
  assume m: "isDateTimeSuffix s" and "\<not> version_like s"
  then consider "s = []" | "s = ''_''" | "s = ''v''" | "s = ''_v''"
    | c r where "\<not> is_digit c" "c \<noteq> CHR ''_''" "c \<noteq> CHR ''v''" "s = c # r"
    | c r where "\<not> is_digit c" "c \<noteq> CHR ''v''" "s = CHR ''_'' # c # r"
    | c r where "\<not> is_digit c" "s = CHR ''v'' # c # r"
    | c r where "\<not> is_digit c" "s = CHR ''_'' # CHR ''v'' # c # r"
    unfolding not_version_like_cases by blast
  then have "\<not> isDateTimeSuffix s"
  proof cases
    case 1
    then show ?thesis
      by (simp add: isDateTimeSuffix_def patterns_def rx_simps)
  next
    case 2
    then show ?thesis
      by (simp add: isDateTimeSuffix_def patterns_def rx_simps)
  next
    case 3
    then show ?thesis
      by (simp add: isDateTimeSuffix_def patterns_def rx_simps)
  next
    case 4
    then show ?thesis
      by (simp add: isDateTimeSuffix_def patterns_def rx_simps)
  next
    case 5
    then show ?thesis
      by (simp add: isDateTimeSuffix_def patterns_def rx_simps dead_prefix_False dead_whole_False)
  next
    case 6
    then show ?thesis
      by (simp add: isDateTimeSuffix_def patterns_def rx_simps dead_prefix_False dead_whole_False)
  next
    case 7
    then show ?thesis
      by (simp add: isDateTimeSuffix_def patterns_def rx_simps dead_prefix_False dead_whole_False)
  next
    case 8
    then show ?thesis
      by (simp add: isDateTimeSuffix_def patterns_def rx_simps dead_prefix_False dead_whole_False)
  qed
  with m show False by simp
qed

text \<open>
  The eight patterns together accept exactly the suffixes that begin with an optional
  underscore, an optional \<^verbatim>\<open>v\<close> and a digit: seven of them are not anchored at the end,
  and the version pattern accepts whatever the others accept.
\<close>

lemma isDateTimeSuffix_version_like: "isDateTimeSuffix s = version_like s"
  using suffix_version_like version_like_suffix by blast

subsection \<open>The stated forms\<close>

lemma drop_optional_digit: "starts_with_digit s \<Longrightarrow> drop_optional CHR ''v'' s = s"
  by (cases s) (auto simp: drop_optional_def starts_with_digit_def not_digit)

lemma all_digits_starts:
  "all_digits n (take n s) \<Longrightarrow> 0 < n \<Longrightarrow> starts_with_digit s"
  by (cases s; cases n) (auto simp: all_digits_def starts_with_digit_def)

lemma all_digits_whole_starts: "all_digits n s \<Longrightarrow> 0 < n \<Longrightarrow> starts_with_digit s"
  by (cases s) (auto simp: all_digits_def starts_with_digit_def)

lemma split_on_not_Nil: "split_on sep s \<noteq> []"
  by (induction s) (auto split: list.splits)

lemma hd_split_on: "hd (split_on sep s) = takeWhile (\<lambda>c. c \<noteq> sep) s"
  by (induction s) (auto simp: split_on_not_Nil split: list.splits)

lemma version_form_starts:
  assumes "version_form s"
  shows "starts_with_digit (drop_optional CHR ''v'' s)"
proof -
  from assms obtain r where s: "s = CHR ''v'' # r"
    and g: "list_all (\<lambda>g. g \<noteq> [] \<and> list_all is_digit g) (split_on CHR ''.'' r)"
    by (auto simp: version_form_def split: list.splits)
  let ?h = "takeWhile (\<lambda>c. c \<noteq> CHR ''.'') r"
  have "hd (split_on CHR ''.'' r) \<in> set (split_on CHR ''.'' r)"
    using split_on_not_Nil by simp
  with g have h: "?h \<noteq> [] \<and> list_all is_digit ?h"
    by (simp add: list_all_iff hd_split_on)
  then obtain c cs where r: "r = c # cs" by (cases r) auto
  with h have "is_digit c" by (auto split: if_splits)
  with s r show ?thesis
    by (simp add: drop_optional_def starts_with_digit_def)
qed

text \<open>Every suffix of a stated form begins with an optional underscore, an optional
  \<^verbatim>\<open>v\<close> and a digit.\<close>

lemma suffix_stated_version_like:
  assumes "suffix_stated s"
  shows "version_like s"
proof -
  let ?t = "drop_optional CHR ''_'' s"
  from assms consider "date_form 4 2 2 ?t" | "date_form 2 2 4 ?t" | "all_digits 8 ?t"
    | "all_digits 6 ?t" | "all_digits 4 ?t" | "all_digits 1 ?t \<or> all_digits 2 ?t"
    | "version_form ?t" | "time_form ?t"
    by (auto simp: suffix_stated_def suffix_forms_def)
  then have "starts_with_digit (drop_optional CHR ''v'' ?t)"
  proof cases
    case 1
    then have "starts_with_digit ?t" by (auto simp: date_form_def intro: all_digits_starts)
    then show ?thesis by (simp add: drop_optional_digit)
  next
    case 2
    then have "starts_with_digit ?t" by (auto simp: date_form_def intro: all_digits_starts)
    then show ?thesis by (simp add: drop_optional_digit)
  next
    case 3
    then have "starts_with_digit ?t" by (auto intro: all_digits_whole_starts)
    then show ?thesis by (simp add: drop_optional_digit)
  next
    case 4
    then have "starts_with_digit ?t" by (auto intro: all_digits_whole_starts)
    then show ?thesis by (simp add: drop_optional_digit)
  next
    case 5
    then have "starts_with_digit ?t" by (auto intro: all_digits_whole_starts)
    then show ?thesis by (simp add: drop_optional_digit)
  next
    case 6
    then have "starts_with_digit ?t" by (auto intro: all_digits_whole_starts)
    then show ?thesis by (simp add: drop_optional_digit)
  next
    case 7
    then show ?thesis by (rule version_form_starts)
  next
    case 8
    then have "starts_with_digit ?t" by (auto simp: time_form_def intro: all_digits_starts)
    then show ?thesis by (simp add: drop_optional_digit)
  qed
  then show ?thesis by (simp add: version_like_def)
qed

text \<open>Whatever matches as stated, the code matches.\<close>

lemma smartMatch_stated_accepted:
  "smartMatch_stated lib fileName b e \<Longrightarrow> smartMatch lib fileName b e"
  by (auto simp: smartMatch_rule smartMatch_stated_def smart_rule_def
      isDateTimeSuffix_version_like suffix_stated_version_like)

subsection \<open>The strategy\<close>




section \<open>Best match: properties\<close>




















text \<open>
  With an Invalid Date among the matches the newest match need not be returned. The
  three files are as \<^verbatim>\<open>FtpAdapter.list\<close> builds them, the second from a text that is no
  date. The comparator answers \<open>NaN\<close> for the second file against either neighbour, so
  the insertion sort leaves the list as it is, and the oldest match comes first.
\<close>

lemma findBestMatch_invalid_date:
  "findBestMatch (posix_lib (\<lambda>p s. None))
      [listed_file ''a1'' (Num 1), listed_file ''a2'' NaN, listed_file ''a3'' (Num 5)]
      \<lparr>basename = ''a'', filepath = ''a'', extname = ''''\<rparr> Prefix
     = Some (listed_file ''a1'' (Num 1))"
  by (simp add: findBestMatch_def doesFileNameMatch_def startsWith_def listed_file_def
      array_sort_def newestFirst_def sortTime_def)

end
